theory Spec2Isabelle
  imports Complex_Main
begin

section \<open>Double-precision numbers\<close>

text \<open>
  A Python \<open>float\<close> is an IEEE 754 double: a finite number, an infinity or a NaN. A
  finite double is modelled by the real number it denotes; the two zeros are one value,
  as they are for \<open>==\<close>, for every comparison and for the zero test of a division.
  \<open>double_nearest x\<close> rounds a real to the nearest point of the double grid, ties to the
  even significand, with gradual underflow; \<open>double_round\<close> adds the overflow to an
  infinity, which begins at \<open>2^1024 - 2^970\<close>. Every operation rounds its exact result
  once; this is what IEEE 754 prescribes for \<open>+\<close>, \<open>-\<close>, \<open>*\<close>, \<open>/\<close> and the square root,
  and it is assumed of \<open>x ** 2\<close> as well.
\<close>

datatype fl = Finite real | PosInf | NegInf | NaN

definition round_even :: "real \<Rightarrow> int" where
  "round_even q =
     (let f = \<lfloor>q\<rfloor>; r = q - of_int f
      in if r < 1 / 2 then f else if 1 / 2 < r then f + 1 else if even f then f else f + 1)"

definition double_exponent :: "real \<Rightarrow> int" where
  "double_exponent x = max (\<lfloor>log 2 \<bar>x\<bar>\<rfloor> - 52) (- 1074)"

definition double_nearest :: "real \<Rightarrow> real" where
  "double_nearest x =
     (if x = 0 then 0
      else of_int (round_even (x / 2 powr of_int (double_exponent x))) *
           2 powr of_int (double_exponent x))"

definition overflow_threshold :: real where
  "overflow_threshold = 2 ^ 1024 - 2 ^ 970"

definition double_round :: "real \<Rightarrow> fl" where
  "double_round x =
     (if overflow_threshold \<le> x then PosInf
      else if x \<le> - overflow_threshold then NegInf
      else Finite (double_nearest x))"

text \<open>A float literal of the source denotes the double nearest to its decimal.\<close>

definition py_float :: "real \<Rightarrow> real" where
  "py_float x = double_nearest x"

text \<open>The arithmetic of the hardware on doubles. None of these raises.\<close>

fun fl_neg :: "fl \<Rightarrow> fl" where
  "fl_neg (Finite x) = Finite (- x)"
| "fl_neg PosInf = NegInf"
| "fl_neg NegInf = PosInf"
| "fl_neg NaN = NaN"

fun fl_add :: "fl \<Rightarrow> fl \<Rightarrow> fl" where
  "fl_add (Finite a) (Finite b) = double_round (a + b)"
| "fl_add NaN y = NaN"
| "fl_add x NaN = NaN"
| "fl_add PosInf NegInf = NaN"
| "fl_add NegInf PosInf = NaN"
| "fl_add PosInf y = PosInf"
| "fl_add x PosInf = PosInf"
| "fl_add NegInf y = NegInf"
| "fl_add x NegInf = NegInf"

definition fl_sub :: "fl \<Rightarrow> fl \<Rightarrow> fl" where
  "fl_sub x y = fl_add x (fl_neg y)"

text \<open>An infinity of the given sign, and the product of an infinity with a finite number.\<close>

definition inf_of :: "bool \<Rightarrow> fl" where
  "inf_of positive = (if positive then PosInf else NegInf)"

definition inf_times :: "bool \<Rightarrow> real \<Rightarrow> fl" where
  "inf_times positive b = (if b = 0 then NaN else inf_of (positive = (0 < b)))"

fun fl_mul :: "fl \<Rightarrow> fl \<Rightarrow> fl" where
  "fl_mul (Finite a) (Finite b) = double_round (a * b)"
| "fl_mul NaN y = NaN"
| "fl_mul x NaN = NaN"
| "fl_mul PosInf (Finite b) = inf_times True b"
| "fl_mul NegInf (Finite b) = inf_times False b"
| "fl_mul (Finite a) PosInf = inf_times True a"
| "fl_mul (Finite a) NegInf = inf_times False a"
| "fl_mul PosInf PosInf = PosInf"
| "fl_mul NegInf NegInf = PosInf"
| "fl_mul PosInf NegInf = NegInf"
| "fl_mul NegInf PosInf = NegInf"

text \<open>
  Division by a nonzero double. Python tests the divisor for zero before it divides, so
  the value at a zero divisor is never used; it is NaN here.
\<close>

fun fl_div :: "fl \<Rightarrow> fl \<Rightarrow> fl" where
  "fl_div (Finite a) (Finite b) = (if b = 0 then NaN else double_round (a / b))"
| "fl_div NaN y = NaN"
| "fl_div x NaN = NaN"
| "fl_div (Finite a) PosInf = Finite 0"
| "fl_div (Finite a) NegInf = Finite 0"
| "fl_div PosInf (Finite b) = (if b = 0 then NaN else inf_of (0 < b))"
| "fl_div NegInf (Finite b) = (if b = 0 then NaN else inf_of (b < 0))"
| "fl_div x y = NaN"

text \<open>The square of a double, rounded; and whether it leaves the finite range.\<close>

fun fl_sq :: "fl \<Rightarrow> fl" where
  "fl_sq (Finite a) = double_round (a * a)"
| "fl_sq PosInf = PosInf"
| "fl_sq NegInf = PosInf"
| "fl_sq NaN = NaN"

fun fl_sq_overflows :: "fl \<Rightarrow> bool" where
  "fl_sq_overflows (Finite a) = (overflow_threshold \<le> a * a)"
| "fl_sq_overflows x = False"

text \<open>The square root, correctly rounded; it is undefined below zero.\<close>

fun fl_sqrt :: "fl \<Rightarrow> fl" where
  "fl_sqrt (Finite a) = (if a < 0 then NaN else Finite (double_nearest (sqrt a)))"
| "fl_sqrt PosInf = PosInf"
| "fl_sqrt NegInf = NaN"
| "fl_sqrt NaN = NaN"

fun fl_sqrt_undefined :: "fl \<Rightarrow> bool" where
  "fl_sqrt_undefined (Finite a) = (a < 0)"
| "fl_sqrt_undefined NegInf = True"
| "fl_sqrt_undefined x = False"

text \<open>Comparisons of a double with a finite number. Every comparison with NaN is false.\<close>

fun fl_less :: "fl \<Rightarrow> real \<Rightarrow> bool" where
  "fl_less (Finite x) c = (x < c)"
| "fl_less NegInf c = True"
| "fl_less x c = False"

fun fl_greater :: "fl \<Rightarrow> real \<Rightarrow> bool" where
  "fl_greater (Finite x) c = (c < x)"
| "fl_greater PosInf c = True"
| "fl_greater x c = False"

fun fl_le :: "fl \<Rightarrow> real \<Rightarrow> bool" where
  "fl_le (Finite x) c = (x \<le> c)"
| "fl_le NegInf c = True"
| "fl_le x c = False"

fun fl_ge :: "fl \<Rightarrow> real \<Rightarrow> bool" where
  "fl_ge (Finite x) c = (c \<le> x)"
| "fl_ge PosInf c = True"
| "fl_ge x c = False"

fun fl_is_zero :: "fl \<Rightarrow> bool" where
  "fl_is_zero (Finite x) = (x = 0)"
| "fl_is_zero x = False"

section \<open>Python values, exceptions and operators\<close>

text \<open>
  The filter reads an alert's properties from a dictionary keyed by strings. A property
  is a \<open>float\<close>, an \<open>int\<close> (of any size), a \<open>bool\<close> or a string.
\<close>

datatype pyval = PFloat fl | PInt int | PBool bool | PStr string

datatype error = KeyError string | TypeError | ZeroDivisionError | ValueError | OverflowError

text \<open>The numeric reading of a value: a \<open>bool\<close> is the integer 0 or 1, a string has none.\<close>

datatype num = NInt int | NFloat fl

fun num_of :: "pyval \<Rightarrow> num option" where
  "num_of (PFloat f) = Some (NFloat f)"
| "num_of (PInt n) = Some (NInt n)"
| "num_of (PBool b) = Some (NInt (if b then 1 else 0))"
| "num_of (PStr s) = None"

text \<open>
  The conversion of an operand to \<open>float\<close> in mixed arithmetic: an integer is rounded to
  the nearest double, and one beyond the double range raises \<open>OverflowError\<close>.
\<close>

fun to_float :: "num \<Rightarrow> error + fl" where
  "to_float (NFloat f) = Inr f"
| "to_float (NInt n) =
     (case double_round (of_int n) of
        Finite x \<Rightarrow> Inr (Finite x)
      | _ \<Rightarrow> Inl OverflowError)"

text \<open>Truth value of an object, as \<open>any\<close> and \<open>if\<close> test it.\<close>

fun truthy :: "pyval \<Rightarrow> bool" where
  "truthy (PFloat f) = (\<not> fl_is_zero f)"
| "truthy (PInt n) = (n \<noteq> 0)"
| "truthy (PBool b) = b"
| "truthy (PStr s) = (s \<noteq> [])"

definition py_any :: "pyval list \<Rightarrow> bool" where
  "py_any vs = list_ex truthy vs"

text \<open>
  Ordering comparisons with a finite number. Python compares an \<open>int\<close> with a
  \<open>float\<close> exactly, without converting; a string raises \<open>TypeError\<close>.
\<close>

definition py_gt :: "pyval \<Rightarrow> real \<Rightarrow> error + bool" where
  "py_gt v c =
     (case num_of v of
        None \<Rightarrow> Inl TypeError
      | Some (NInt n) \<Rightarrow> Inr (c < of_int n)
      | Some (NFloat f) \<Rightarrow> Inr (fl_greater f c))"

definition py_lt :: "pyval \<Rightarrow> real \<Rightarrow> error + bool" where
  "py_lt v c =
     (case num_of v of
        None \<Rightarrow> Inl TypeError
      | Some (NInt n) \<Rightarrow> Inr (of_int n < c)
      | Some (NFloat f) \<Rightarrow> Inr (fl_less f c))"

definition py_le :: "pyval \<Rightarrow> real \<Rightarrow> error + bool" where
  "py_le v c =
     (case num_of v of
        None \<Rightarrow> Inl TypeError
      | Some (NInt n) \<Rightarrow> Inr (of_int n \<le> c)
      | Some (NFloat f) \<Rightarrow> Inr (fl_le f c))"

definition py_ge :: "pyval \<Rightarrow> real \<Rightarrow> error + bool" where
  "py_ge v c =
     (case num_of v of
        None \<Rightarrow> Inl TypeError
      | Some (NInt n) \<Rightarrow> Inr (c \<le> of_int n)
      | Some (NFloat f) \<Rightarrow> Inr (fl_ge f c))"

text \<open>\<open>v == 0.0\<close> never raises: a string is simply not equal to a number.\<close>

definition py_eq0 :: "pyval \<Rightarrow> bool" where
  "py_eq0 v =
     (case num_of v of
        None \<Rightarrow> False
      | Some (NInt n) \<Rightarrow> n = 0
      | Some (NFloat f) \<Rightarrow> fl_is_zero f)"

text \<open>Sequencing of computations that may raise: the first exception wins.\<close>

definition and_then :: "error + 'a \<Rightarrow> ('a \<Rightarrow> error + 'b) \<Rightarrow> error + 'b" where
  "and_then r f = (case r of Inl e \<Rightarrow> Inl e | Inr x \<Rightarrow> f x)"

text \<open>
  Binary arithmetic: two integers stay integers, anything else is computed on doubles
  after both operands are converted.
\<close>

definition float_op :: "(fl \<Rightarrow> fl \<Rightarrow> fl) \<Rightarrow> num \<Rightarrow> num \<Rightarrow> error + pyval" where
  "float_op f x y =
     and_then (to_float x) (\<lambda>a.
     and_then (to_float y) (\<lambda>b.
     Inr (PFloat (f a b))))"

fun num_add :: "num \<Rightarrow> num \<Rightarrow> error + pyval" where
  "num_add (NInt a) (NInt b) = Inr (PInt (a + b))"
| "num_add x y = float_op fl_add x y"

fun num_sub :: "num \<Rightarrow> num \<Rightarrow> error + pyval" where
  "num_sub (NInt a) (NInt b) = Inr (PInt (a - b))"
| "num_sub x y = float_op fl_sub x y"

fun num_mul :: "num \<Rightarrow> num \<Rightarrow> error + pyval" where
  "num_mul (NInt a) (NInt b) = Inr (PInt (a * b))"
| "num_mul x y = float_op fl_mul x y"

text \<open>
  True division always gives a \<open>float\<close>. Of two integers it is the exact quotient
  rounded once, and \<open>OverflowError\<close> when that is beyond the double range; otherwise
  both operands are converted first, then the divisor is tested for zero.
\<close>

fun num_div :: "num \<Rightarrow> num \<Rightarrow> error + pyval" where
  "num_div (NInt a) (NInt b) =
     (if b = 0 then Inl ZeroDivisionError
      else case double_round (of_int a / of_int b) of
             Finite q \<Rightarrow> Inr (PFloat (Finite q))
           | _ \<Rightarrow> Inl OverflowError)"
| "num_div x y =
     and_then (to_float x) (\<lambda>a.
     and_then (to_float y) (\<lambda>b.
     if fl_is_zero b then Inl ZeroDivisionError else Inr (PFloat (fl_div a b))))"

text \<open>\<open>+\<close> adds numbers and concatenates strings; the other operators are numeric only.\<close>

fun py_add :: "pyval \<Rightarrow> pyval \<Rightarrow> error + pyval" where
  "py_add (PStr s) (PStr t) = Inr (PStr (s @ t))"
| "py_add x y =
     (case (num_of x, num_of y) of
        (Some a, Some b) \<Rightarrow> num_add a b
      | _ \<Rightarrow> Inl TypeError)"

definition py_sub :: "pyval \<Rightarrow> pyval \<Rightarrow> error + pyval" where
  "py_sub x y =
     (case (num_of x, num_of y) of
        (Some a, Some b) \<Rightarrow> num_sub a b
      | _ \<Rightarrow> Inl TypeError)"

definition py_mul :: "pyval \<Rightarrow> pyval \<Rightarrow> error + pyval" where
  "py_mul x y =
     (case (num_of x, num_of y) of
        (Some a, Some b) \<Rightarrow> num_mul a b
      | _ \<Rightarrow> Inl TypeError)"

definition py_div :: "pyval \<Rightarrow> pyval \<Rightarrow> error + pyval" where
  "py_div x y =
     (case (num_of x, num_of y) of
        (Some a, Some b) \<Rightarrow> num_div a b
      | _ \<Rightarrow> Inl TypeError)"

text \<open>
  \<open>v ** 2\<close>. The square of an integer is an integer. The square of a finite float
  raises \<open>OverflowError\<close> when it leaves the double range, and underflows silently.
\<close>

definition py_sq :: "pyval \<Rightarrow> error + pyval" where
  "py_sq x =
     (case num_of x of
        None \<Rightarrow> Inl TypeError
      | Some (NInt n) \<Rightarrow> Inr (PInt (n * n))
      | Some (NFloat f) \<Rightarrow>
          if fl_sq_overflows f then Inl OverflowError else Inr (PFloat (fl_sq f)))"

text \<open>\<open>math.sqrt\<close> converts its argument to \<open>float\<close> and raises \<open>ValueError\<close> below
  zero.\<close>

definition py_sqrt :: "pyval \<Rightarrow> error + pyval" where
  "py_sqrt x =
     (case num_of x of
        None \<Rightarrow> Inl TypeError
      | Some n \<Rightarrow>
          and_then (to_float n) (\<lambda>f.
          if fl_sqrt_undefined f then Inl ValueError else Inr (PFloat (fl_sqrt f))))"

text \<open>Python's short-circuit \<open>and\<close> on two comparisons: the right one is evaluated only
  when the left one is true.\<close>

definition py_and :: "error + bool \<Rightarrow> error + bool \<Rightarrow> error + bool" where
  "py_and l r = and_then l (\<lambda>b. if b then r else Inr False)"

section \<open>The ellipticity helper\<close>

text \<open>
  \<^verbatim>\<open>
  def _ellipticity(ixx, iyy, ixy):
      denom = ixx + iyy
      if denom == 0.0:
          return 0.0
      return math.sqrt((ixx - iyy) ** 2 + 4.0 * ixy ** 2) / denom
  \<close>
\<close>

definition ellipticity :: "pyval \<Rightarrow> pyval \<Rightarrow> pyval \<Rightarrow> error + pyval" where
  "ellipticity ixx iyy ixy =
     and_then (py_add ixx iyy) (\<lambda>denom.
     if py_eq0 denom then Inr (PFloat (Finite 0))
     else
       and_then (py_sub ixx iyy) (\<lambda>d.
       and_then (py_sq d) (\<lambda>d2.
       and_then (py_sq ixy) (\<lambda>q.
       and_then (py_mul (PFloat (Finite 4)) q) (\<lambda>q4.
       and_then (py_add d2 q4) (\<lambda>s.
       and_then (py_sqrt s) (\<lambda>root.
       py_div root denom)))))))"

section \<open>Configuration and the world of a call\<close>

text \<open>
  The two source files hold the same algorithm with different thresholds: one writes
  them as literals and a module constant \<open>BAND_FLUX_THRESHOLDS\<close>, the other reads
  them from a module dictionary \<open>thresholds\<close>. The model has one evaluator that reads
  its thresholds from a configuration, and the two tables as two configurations. A
  threshold is the finite number its literal denotes: \<open>py_float\<close> of a float literal,
  the integer itself for the \<open>5\<close> of the second table.
\<close>

record config =
  snr_floor :: real
  flux_ext_floor :: real
  i_ext_floor :: real
  ellip_ext_floor :: real
  temp_sci_flux_ratio_floor :: real
  flux_caps :: "string \<rightharpoonup> real"

text \<open>\<^verbatim>\<open>src/filters/extendedness.py\<close>\<close>

definition BAND_FLUX_THRESHOLDS :: "string \<rightharpoonup> real" where
  "BAND_FLUX_THRESHOLDS =
     [''u'' \<mapsto> py_float 178286.7, ''g'' \<mapsto> py_float 255131.4,
      ''r'' \<mapsto> py_float 657111.2, ''i'' \<mapsto> py_float 743053.0,
      ''z'' \<mapsto> py_float 963585.1, ''y'' \<mapsto> py_float 1013290.7]"

definition filters_thresholds :: config where
  "filters_thresholds =
     \<lparr> snr_floor = py_float 15.0, flux_ext_floor = py_float 1.259,
       i_ext_floor = py_float 1.5, ellip_ext_floor = py_float 0.2,
       temp_sci_flux_ratio_floor = py_float 0.25,
       flux_caps = BAND_FLUX_THRESHOLDS \<rparr>"

text \<open>\<^verbatim>\<open>src/src/lantern/filters/extendedness.py\<close>\<close>

definition lantern_thresholds :: config where
  "lantern_thresholds =
     \<lparr> snr_floor = 5, flux_ext_floor = py_float 0.35, i_ext_floor = py_float 0.5,
       ellip_ext_floor = py_float 0.2, temp_sci_flux_ratio_floor = py_float 0.85,
       flux_caps =
         [''u'' \<mapsto> py_float 88644.7, ''g'' \<mapsto> py_float 118074.2,
          ''r'' \<mapsto> py_float 166872.5, ''i'' \<mapsto> py_float 203090.9,
          ''z'' \<mapsto> py_float 257254.0, ''y'' \<mapsto> py_float 264794.0] \<rparr>"

text \<open>
  What a call can see and could change: the dictionary it is given and the module's
  thresholds. A computation takes the world and returns its result, or the exception it
  raised, together with the world it leaves behind.
\<close>

record world =
  props :: "string \<rightharpoonup> pyval"
  thresholds :: config

type_synonym 'a py = "world \<Rightarrow> (error + 'a) \<times> world"

definition ret :: "'a \<Rightarrow> 'a py" where
  "ret x = (\<lambda>w. (Inr x, w))"

definition lift :: "error + 'a \<Rightarrow> 'a py" where
  "lift r = (\<lambda>w. (r, w))"

definition seq :: "'a py \<Rightarrow> ('a \<Rightarrow> 'b py) \<Rightarrow> 'b py" where
  "seq m f = (\<lambda>w. case m w of (Inl e, w') \<Rightarrow> (Inl e, w') | (Inr x, w') \<Rightarrow> f x w')"

text \<open>\<open>props[k]\<close>: a missing key raises \<open>KeyError\<close>.\<close>

definition getitem :: "string \<Rightarrow> pyval py" where
  "getitem k = (\<lambda>w. (case props w k of None \<Rightarrow> Inl (KeyError k) | Some v \<Rightarrow> Inr v, w))"

text \<open>A threshold of the module: \<open>thresholds["snr"]\<close>, or the literal in its place.\<close>

definition threshold :: "(config \<Rightarrow> 'a) \<Rightarrow> 'a py" where
  "threshold sel = (\<lambda>w. (Inr (sel (thresholds w)), w))"

text \<open>\<open>v <= thresholds[...]\<close>\<close>

definition le_threshold :: "pyval \<Rightarrow> (config \<Rightarrow> real) \<Rightarrow> bool py" where
  "le_threshold v sel = seq (threshold sel) (\<lambda>t. lift (py_le v t))"

text \<open>Short-circuit \<open>or\<close>: the right operand is evaluated only when the left is false.\<close>

definition py_or :: "bool py \<Rightarrow> bool py \<Rightarrow> bool py" where
  "py_or l r = seq l (\<lambda>b. if b then ret True else r)"

text \<open>\<open>caps.get(band)\<close>: the keys of the table are strings, so any other value is absent.\<close>

fun dict_get :: "(string \<rightharpoonup> real) \<Rightarrow> pyval \<Rightarrow> real option" where
  "dict_get caps (PStr s) = caps s"
| "dict_get caps v = None"

section \<open>The filter evaluator\<close>

text \<open>
  The function returns the dictionary of its five features, or \<open>None\<close> from one of six
  \<open>return None\<close> statements. The model records which statement returned; Python sees
  only \<open>None\<close> (\<open>py_return\<close>).
\<close>

datatype site =
  QualityCut | ZeroFlux | ZeroPsfTrace | ExtendednessCut | MovingObjectCut | BandFluxCut

datatype outcome = Pass "string \<rightharpoonup> pyval" | Rejected site

fun py_return :: "outcome \<Rightarrow> (string \<rightharpoonup> pyval) option" where
  "py_return (Pass d) = Some d"
| "py_return (Rejected s) = None"


definition evaluate :: "outcome py" where
  "evaluate =
     seq (getitem ''lsst_diaSource_psfFlux'') (\<lambda>psf_flux.
     seq (getitem ''lsst_diaSource_apFlux'') (\<lambda>ap_flux.
     seq (getitem ''lsst_diaSource_scienceFlux'') (\<lambda>science_flux.
     seq (getitem ''lsst_diaSource_templateFlux'') (\<lambda>template_flux.
     seq (getitem ''lsst_diaSource_snr'') (\<lambda>snr.
     seq (getitem ''lsst_diaSource_band'') (\<lambda>band.
     seq (getitem ''lsst_diaSource_ixx'') (\<lambda>ixx.
     seq (getitem ''lsst_diaSource_iyy'') (\<lambda>iyy.
     seq (getitem ''lsst_diaSource_ixy'') (\<lambda>ixy.
     seq (getitem ''lsst_diaSource_ixxPSF'') (\<lambda>ixx_psf.
     seq (getitem ''lsst_diaSource_iyyPSF'') (\<lambda>iyy_psf.
     seq (getitem ''lsst_diaSource_ixyPSF'') (\<lambda>ixy_psf.
     seq (lift (py_and (py_and (py_gt psf_flux 0) (py_gt ap_flux 0))
                       (py_gt science_flux 0))) (\<lambda>all_pos.
     seq (lift (py_and (py_and (py_lt psf_flux 0) (py_lt ap_flux 0))
                       (py_lt science_flux 0))) (\<lambda>all_neg.
     seq (getitem ''lsst_diaSource_apFlux_flag'') (\<lambda>f1.
     seq (getitem ''lsst_diaSource_psfFlux_flag'') (\<lambda>f2.
     seq (getitem ''lsst_diaSource_pixelFlags_cr'') (\<lambda>f3.
     seq (getitem ''lsst_diaSource_pixelFlags_bad'') (\<lambda>f4.
     seq (getitem ''lsst_diaSource_pixelFlags_nodata'') (\<lambda>f5.
     seq (getitem ''lsst_diaSource_pixelFlags_interpolated'') (\<lambda>f6.
     seq (getitem ''lsst_diaSource_pixelFlags_saturated'') (\<lambda>f7.
     seq (getitem ''lsst_diaSource_pixelFlags_suspect'') (\<lambda>f8.
     seq (le_threshold snr snr_floor) (\<lambda>low_snr.
     if py_any [f1, f2, f3, f4, f5, f6, f7, f8,
                PBool low_snr, PBool (\<not> (all_pos \<or> all_neg))]
     then ret (Rejected QualityCut)
     else if py_eq0 psf_flux \<or> py_eq0 science_flux
     then ret (Rejected ZeroFlux)
     else
     seq (lift (py_add ixx_psf iyy_psf)) (\<lambda>psf_trace.
     if py_eq0 psf_trace
     then ret (Rejected ZeroPsfTrace)
     else
     seq (lift (py_div ap_flux psf_flux)) (\<lambda>flux_ext.
     seq (lift (ellipticity ixx iyy ixy)) (\<lambda>e_src.
     seq (lift (ellipticity ixx_psf iyy_psf ixy_psf)) (\<lambda>e_psf.
     seq (lift (py_sub e_src e_psf)) (\<lambda>ellip_ext.
     seq (lift (py_add ixx iyy)) (\<lambda>trace.
     seq (lift (py_div trace psf_trace)) (\<lambda>i_ext.
     seq (lift (py_div template_flux science_flux)) (\<lambda>temp_sci_flux_ratio.
     seq (py_or (py_or (le_threshold flux_ext flux_ext_floor)
                       (le_threshold i_ext i_ext_floor))
                (le_threshold ellip_ext ellip_ext_floor)) (\<lambda>not_extended.
     if not_extended
     then ret (Rejected ExtendednessCut)
     else
     seq (le_threshold temp_sci_flux_ratio temp_sci_flux_ratio_floor) (\<lambda>moving.
     if moving
     then ret (Rejected MovingObjectCut)
     else
     seq (threshold flux_caps) (\<lambda>caps.
     case dict_get caps band of
       None \<Rightarrow> ret (Rejected BandFluxCut)
     | Some cap \<Rightarrow>
         seq (lift (py_ge template_flux cap)) (\<lambda>too_bright.
         if too_bright
         then ret (Rejected BandFluxCut)
         else ret (Pass [''snr'' \<mapsto> snr,
                         ''flux_ext'' \<mapsto> flux_ext,
                         ''i_ext'' \<mapsto> i_ext,
                         ''ellip_ext'' \<mapsto> ellip_ext,
                         ''temp_sci_flux_ratio'' \<mapsto> temp_sci_flux_ratio]))
     ))))))))))))))))))))))))))))))))))"

text \<open>A call of the filter on a dictionary, under a configuration: what it returns or
  raises.\<close>

definition call :: "config \<Rightarrow> (string \<rightharpoonup> pyval) \<Rightarrow> error + outcome" where
  "call cfg p = fst (evaluate \<lparr> props = p, thresholds = cfg \<rparr>)"

section \<open>Well-typed alerts\<close>

text \<open>
  The alert record of the data model: twelve measurements, the band and eight quality
  flags. \<open>holds p a\<close> says that the dictionary \<open>p\<close> carries the fields of \<open>a\<close> under
  the keys the filter reads, each with the type the data model gives it (a finite
  \<open>float\<close>, a \<open>bool\<close>, a string); \<open>p\<close> may hold other keys as well. \<open>encode a\<close> is
  the dictionary with exactly these twenty keys. A measurement ranges over all reals,
  which include every finite double.
\<close>

record alert =
  psfFlux :: real
  apFlux :: real
  scienceFlux :: real
  templateFlux :: real
  snr :: real
  band :: string
  ixx :: real
  iyy :: real
  ixy :: real
  ixxPSF :: real
  iyyPSF :: real
  ixyPSF :: real
  apFlux_flag :: bool
  psfFlux_flag :: bool
  pixelFlags_cr :: bool
  pixelFlags_bad :: bool
  pixelFlags_nodata :: bool
  pixelFlags_interpolated :: bool
  pixelFlags_saturated :: bool
  pixelFlags_suspect :: bool

definition holds :: "(string \<rightharpoonup> pyval) \<Rightarrow> alert \<Rightarrow> bool" where
  "holds p a \<longleftrightarrow>
     p ''lsst_diaSource_psfFlux'' = Some (PFloat (Finite (psfFlux a))) \<and>
     p ''lsst_diaSource_apFlux'' = Some (PFloat (Finite (apFlux a))) \<and>
     p ''lsst_diaSource_scienceFlux'' = Some (PFloat (Finite (scienceFlux a))) \<and>
     p ''lsst_diaSource_templateFlux'' = Some (PFloat (Finite (templateFlux a))) \<and>
     p ''lsst_diaSource_snr'' = Some (PFloat (Finite (snr a))) \<and>
     p ''lsst_diaSource_band'' = Some (PStr (band a)) \<and>
     p ''lsst_diaSource_ixx'' = Some (PFloat (Finite (ixx a))) \<and>
     p ''lsst_diaSource_iyy'' = Some (PFloat (Finite (iyy a))) \<and>
     p ''lsst_diaSource_ixy'' = Some (PFloat (Finite (ixy a))) \<and>
     p ''lsst_diaSource_ixxPSF'' = Some (PFloat (Finite (ixxPSF a))) \<and>
     p ''lsst_diaSource_iyyPSF'' = Some (PFloat (Finite (iyyPSF a))) \<and>
     p ''lsst_diaSource_ixyPSF'' = Some (PFloat (Finite (ixyPSF a))) \<and>
     p ''lsst_diaSource_apFlux_flag'' = Some (PBool (apFlux_flag a)) \<and>
     p ''lsst_diaSource_psfFlux_flag'' = Some (PBool (psfFlux_flag a)) \<and>
     p ''lsst_diaSource_pixelFlags_cr'' = Some (PBool (pixelFlags_cr a)) \<and>
     p ''lsst_diaSource_pixelFlags_bad'' = Some (PBool (pixelFlags_bad a)) \<and>
     p ''lsst_diaSource_pixelFlags_nodata'' = Some (PBool (pixelFlags_nodata a)) \<and>
     p ''lsst_diaSource_pixelFlags_interpolated'' = Some (PBool (pixelFlags_interpolated a)) \<and>
     p ''lsst_diaSource_pixelFlags_saturated'' = Some (PBool (pixelFlags_saturated a)) \<and>
     p ''lsst_diaSource_pixelFlags_suspect'' = Some (PBool (pixelFlags_suspect a))"

definition encode :: "alert \<Rightarrow> (string \<rightharpoonup> pyval)" where
  "encode a =
     [''lsst_diaSource_psfFlux'' \<mapsto> PFloat (Finite (psfFlux a)),
      ''lsst_diaSource_apFlux'' \<mapsto> PFloat (Finite (apFlux a)),
      ''lsst_diaSource_scienceFlux'' \<mapsto> PFloat (Finite (scienceFlux a)),
      ''lsst_diaSource_templateFlux'' \<mapsto> PFloat (Finite (templateFlux a)),
      ''lsst_diaSource_snr'' \<mapsto> PFloat (Finite (snr a)),
      ''lsst_diaSource_band'' \<mapsto> PStr (band a),
      ''lsst_diaSource_ixx'' \<mapsto> PFloat (Finite (ixx a)),
      ''lsst_diaSource_iyy'' \<mapsto> PFloat (Finite (iyy a)),
      ''lsst_diaSource_ixy'' \<mapsto> PFloat (Finite (ixy a)),
      ''lsst_diaSource_ixxPSF'' \<mapsto> PFloat (Finite (ixxPSF a)),
      ''lsst_diaSource_iyyPSF'' \<mapsto> PFloat (Finite (iyyPSF a)),
      ''lsst_diaSource_ixyPSF'' \<mapsto> PFloat (Finite (ixyPSF a)),
      ''lsst_diaSource_apFlux_flag'' \<mapsto> PBool (apFlux_flag a),
      ''lsst_diaSource_psfFlux_flag'' \<mapsto> PBool (psfFlux_flag a),
      ''lsst_diaSource_pixelFlags_cr'' \<mapsto> PBool (pixelFlags_cr a),
      ''lsst_diaSource_pixelFlags_bad'' \<mapsto> PBool (pixelFlags_bad a),
      ''lsst_diaSource_pixelFlags_nodata'' \<mapsto> PBool (pixelFlags_nodata a),
      ''lsst_diaSource_pixelFlags_interpolated'' \<mapsto> PBool (pixelFlags_interpolated a),
      ''lsst_diaSource_pixelFlags_saturated'' \<mapsto> PBool (pixelFlags_saturated a),
      ''lsst_diaSource_pixelFlags_suspect'' \<mapsto> PBool (pixelFlags_suspect a)]"

text \<open>The conditions of the cuts, as the source writes them, on a well-typed alert.\<close>

definition any_flag :: "alert \<Rightarrow> bool" where
  "any_flag a \<longleftrightarrow>
     apFlux_flag a \<or> psfFlux_flag a \<or> pixelFlags_cr a \<or> pixelFlags_bad a \<or>
     pixelFlags_nodata a \<or> pixelFlags_interpolated a \<or> pixelFlags_saturated a \<or>
     pixelFlags_suspect a"

definition all_pos :: "alert \<Rightarrow> bool" where
  "all_pos a \<longleftrightarrow> psfFlux a > 0 \<and> apFlux a > 0 \<and> scienceFlux a > 0"

definition all_neg :: "alert \<Rightarrow> bool" where
  "all_neg a \<longleftrightarrow> psfFlux a < 0 \<and> apFlux a < 0 \<and> scienceFlux a < 0"

text \<open>
  The ellipticity of three finite doubles, in double arithmetic: whether one of its two
  squares leaves the double range, and its value when none does.
\<close>

definition ellip_overflows :: "real \<Rightarrow> real \<Rightarrow> real \<Rightarrow> bool" where
  "ellip_overflows xx yy xy \<longleftrightarrow>
     \<not> fl_is_zero (fl_add (Finite xx) (Finite yy)) \<and>
     (fl_sq_overflows (fl_sub (Finite xx) (Finite yy)) \<or> fl_sq_overflows (Finite xy))"

definition ellip :: "real \<Rightarrow> real \<Rightarrow> real \<Rightarrow> fl" where
  "ellip xx yy xy =
     (if fl_is_zero (fl_add (Finite xx) (Finite yy)) then Finite 0
      else fl_div (fl_sqrt (fl_add (fl_sq (fl_sub (Finite xx) (Finite yy)))
                                   (fl_mul (Finite 4) (fl_sq (Finite xy)))))
                  (fl_add (Finite xx) (Finite yy)))"

text \<open>The features, in double arithmetic.\<close>

definition psf_trace :: "alert \<Rightarrow> fl" where
  "psf_trace a = fl_add (Finite (ixxPSF a)) (Finite (iyyPSF a))"

definition flux_ext :: "alert \<Rightarrow> fl" where
  "flux_ext a = fl_div (Finite (apFlux a)) (Finite (psfFlux a))"

definition ellip_ext :: "alert \<Rightarrow> fl" where
  "ellip_ext a =
     fl_sub (ellip (ixx a) (iyy a) (ixy a)) (ellip (ixxPSF a) (iyyPSF a) (ixyPSF a))"

definition i_ext :: "alert \<Rightarrow> fl" where
  "i_ext a = fl_div (fl_add (Finite (ixx a)) (Finite (iyy a))) (psf_trace a)"

definition temp_sci_flux_ratio :: "alert \<Rightarrow> fl" where
  "temp_sci_flux_ratio a = fl_div (Finite (templateFlux a)) (Finite (scienceFlux a))"

definition features :: "alert \<Rightarrow> (string \<rightharpoonup> pyval)" where
  "features a =
     [''snr'' \<mapsto> PFloat (Finite (snr a)),
      ''flux_ext'' \<mapsto> PFloat (flux_ext a),
      ''i_ext'' \<mapsto> PFloat (i_ext a),
      ''ellip_ext'' \<mapsto> PFloat (ellip_ext a),
      ''temp_sci_flux_ratio'' \<mapsto> PFloat (temp_sci_flux_ratio a)]"

text \<open>
  What the evaluator computes on a well-typed alert, cut by cut in the order of the
  source (\<open>evaluate_holds\<close> below proves that it is). The one exception it can raise
  there is the \<open>OverflowError\<close> of a square in the ellipticity helper.
\<close>

definition verdict :: "config \<Rightarrow> alert \<Rightarrow> error + outcome" where
  "verdict cfg a =
     (if any_flag a \<or> snr a \<le> snr_floor cfg \<or> \<not> (all_pos a \<or> all_neg a)
      then Inr (Rejected QualityCut)
      else if psfFlux a = 0 \<or> scienceFlux a = 0 then Inr (Rejected ZeroFlux)
      else if fl_is_zero (psf_trace a) then Inr (Rejected ZeroPsfTrace)
      else if ellip_overflows (ixx a) (iyy a) (ixy a) \<or>
              ellip_overflows (ixxPSF a) (iyyPSF a) (ixyPSF a)
      then Inl OverflowError
      else if fl_le (flux_ext a) (flux_ext_floor cfg) \<or> fl_le (i_ext a) (i_ext_floor cfg) \<or>
              fl_le (ellip_ext a) (ellip_ext_floor cfg)
      then Inr (Rejected ExtendednessCut)
      else if fl_le (temp_sci_flux_ratio a) (temp_sci_flux_ratio_floor cfg)
      then Inr (Rejected MovingObjectCut)
      else case flux_caps cfg (band a) of
             None \<Rightarrow> Inr (Rejected BandFluxCut)
           | Some cap \<Rightarrow>
               if templateFlux a \<ge> cap then Inr (Rejected BandFluxCut)
               else Inr (Pass (features a)))"

text \<open>What Python sees of a call: the feature dictionary, \<open>None\<close>, or the exception.\<close>

definition returned :: "config \<Rightarrow> (string \<rightharpoonup> pyval) \<Rightarrow> error + (string \<rightharpoonup> pyval) option" where
  "returned cfg p = map_sum id py_return (call cfg p)"

text \<open>The keys the evaluator reads.\<close>

definition required_keys :: "string list" where
  "required_keys =
     [''lsst_diaSource_psfFlux'', ''lsst_diaSource_apFlux'', ''lsst_diaSource_scienceFlux'',
      ''lsst_diaSource_templateFlux'', ''lsst_diaSource_snr'', ''lsst_diaSource_band'',
      ''lsst_diaSource_ixx'', ''lsst_diaSource_iyy'', ''lsst_diaSource_ixy'',
      ''lsst_diaSource_ixxPSF'', ''lsst_diaSource_iyyPSF'', ''lsst_diaSource_ixyPSF'',
      ''lsst_diaSource_apFlux_flag'', ''lsst_diaSource_psfFlux_flag'',
      ''lsst_diaSource_pixelFlags_cr'', ''lsst_diaSource_pixelFlags_bad'',
      ''lsst_diaSource_pixelFlags_nodata'', ''lsst_diaSource_pixelFlags_interpolated'',
      ''lsst_diaSource_pixelFlags_saturated'', ''lsst_diaSource_pixelFlags_suspect'']"

section \<open>The cuts as separate predicates\<close>

text \<open>
  The specification describes the cuts as independent predicates of the input and the
  configuration, combined by a logical AND whose order is free. This section follows
  those words, to compare them with the evaluator. Each cut is the condition under
  which an alert survives it, computed on its own from the fields of the alert with the
  operators of the source. The quality gate, the degeneracy guard and the band cap
  only compare, so they are truth values; the extendedness and moving-object cuts
  compute features first, which can raise.
\<close>

definition passes_quality :: "config \<Rightarrow> alert \<Rightarrow> bool" where
  "passes_quality cfg a \<longleftrightarrow>
     \<not> (any_flag a \<or> snr a \<le> snr_floor cfg \<or> \<not> (all_pos a \<or> all_neg a))"

definition passes_degeneracy :: "alert \<Rightarrow> bool" where
  "passes_degeneracy a \<longleftrightarrow>
     \<not> (psfFlux a = 0 \<or> scienceFlux a = 0) \<and> \<not> fl_is_zero (psf_trace a)"

definition passes_band_cap :: "config \<Rightarrow> alert \<Rightarrow> bool" where
  "passes_band_cap cfg a \<longleftrightarrow>
     (case flux_caps cfg (band a) of
        None \<Rightarrow> False
      | Some cap \<Rightarrow> \<not> templateFlux a \<ge> cap)"

definition extendedness_cut :: "config \<Rightarrow> alert \<Rightarrow> error + bool" where
  "extendedness_cut cfg a =
     and_then (py_div (PFloat (Finite (apFlux a))) (PFloat (Finite (psfFlux a)))) (\<lambda>fe.
     and_then (ellipticity (PFloat (Finite (ixx a))) (PFloat (Finite (iyy a)))
                           (PFloat (Finite (ixy a)))) (\<lambda>e_src.
     and_then (ellipticity (PFloat (Finite (ixxPSF a))) (PFloat (Finite (iyyPSF a)))
                           (PFloat (Finite (ixyPSF a)))) (\<lambda>e_psf.
     and_then (py_sub e_src e_psf) (\<lambda>ee.
     and_then (py_add (PFloat (Finite (ixx a))) (PFloat (Finite (iyy a)))) (\<lambda>trace.
     and_then (py_add (PFloat (Finite (ixxPSF a))) (PFloat (Finite (iyyPSF a)))) (\<lambda>ptrace.
     and_then (py_div trace ptrace) (\<lambda>ie.
     and_then (py_le fe (flux_ext_floor cfg)) (\<lambda>c1.
     and_then (py_le ie (i_ext_floor cfg)) (\<lambda>c2.
     and_then (py_le ee (ellip_ext_floor cfg)) (\<lambda>c3.
     Inr (\<not> (c1 \<or> c2 \<or> c3))))))))))))"

definition moving_object_cut :: "config \<Rightarrow> alert \<Rightarrow> error + bool" where
  "moving_object_cut cfg a =
     and_then (py_div (PFloat (Finite (templateFlux a))) (PFloat (Finite (scienceFlux a))))
       (\<lambda>ratio.
     and_then (py_le ratio (temp_sci_flux_ratio_floor cfg)) (\<lambda>c.
     Inr (\<not> c)))"





section \<open>Example alerts\<close>

text \<open>
  An alert that passes every cut under both threshold tables. Every measurement is a
  small integer, so each is a double and each step of the feature computation is exact.
\<close>

definition extended_alert :: alert where
  "extended_alert =
     \<lparr> psfFlux = 100, apFlux = 200, scienceFlux = 500, templateFlux = 500, snr = 20,
       band = ''r'', ixx = 4, iyy = 1, ixy = 2, ixxPSF = 1, iyyPSF = 1, ixyPSF = 0,
       apFlux_flag = False, psfFlux_flag = False, pixelFlags_cr = False,
       pixelFlags_bad = False, pixelFlags_nodata = False, pixelFlags_interpolated = False,
       pixelFlags_saturated = False, pixelFlags_suspect = False \<rparr>"

text \<open>The same source seen in a difference image where it has dimmed.\<close>

definition negative_alert :: alert where
  "negative_alert =
     extended_alert \<lparr> psfFlux := - 100, apFlux := - 200, scienceFlux := - 500,
                      templateFlux := - 500 \<rparr>"


section \<open>Predicates on computations\<close>

text \<open>A computation that leaves every world as it found it.\<close>

definition readonly :: "'a py \<Rightarrow> bool" where
  "readonly m \<longleftrightarrow> (\<forall>w. snd (m w) = w)"

text \<open>A computation that ends in an exception from the world \<open>w\<close>.\<close>

definition raises :: "'a py \<Rightarrow> world \<Rightarrow> bool" where
  "raises m w \<longleftrightarrow> isl (fst (m w))"

text \<open>
  A run of the evaluator that neither divides by zero nor leaves through the
  \<open>psf_flux == 0.0 or science_flux == 0.0\<close> return.
\<close>

definition safe :: "outcome py \<Rightarrow> world \<Rightarrow> bool" where
  "safe m w \<longleftrightarrow>
     fst (m w) \<noteq> Inl ZeroDivisionError \<and> fst (m w) \<noteq> Inr (Rejected ZeroFlux)"

section \<open>Facts about rounding\<close>

lemma round_even_of_int: "round_even (of_int m) = m"
  by (simp add: round_even_def)

lemma round_even_error: "\<bar>of_int (round_even q) - q\<bar> \<le> 1 / 2"
proof -
  have "of_int \<lfloor>q\<rfloor> \<le> q" "q < of_int \<lfloor>q\<rfloor> + 1" by linarith+
  then show ?thesis
    by (auto simp: round_even_def Let_def)
qed

lemma double_exponent_le:
  assumes "x \<noteq> 0" and "\<bar>x\<bar> < 2 powr of_int (k + 53)" and "- 1074 \<le> k"
  shows "double_exponent x \<le> k"
proof -
  have "log 2 \<bar>x\<bar> < of_int (k + 53)"
    using assms(1,2) by (subst log_less_iff) auto
  then have "\<lfloor>log 2 \<bar>x\<bar>\<rfloor> < k + 53" by linarith
  with assms(3) show ?thesis by (simp add: double_exponent_def)
qed

lemma double_nearest_exact:
  assumes "\<bar>m\<bar> < 2 ^ 53" and "- 1074 \<le> k"
  shows "double_nearest (of_int m * 2 powr of_int k) = of_int m * 2 powr of_int k"
proof (cases "m = 0")
  case True
  then show ?thesis by (simp add: double_nearest_def)
next
  case False
  define x :: real where "x = of_int m * 2 powr of_int k"
  define e where "e = double_exponent x"
  have x0: "x \<noteq> 0" using False by (simp add: x_def)
  have "\<bar>x\<bar> = \<bar>of_int m\<bar> * 2 powr of_int k" by (simp add: x_def abs_mult)
  also have "\<dots> < 2 ^ 53 * 2 powr of_int k"
  proof -
    have "\<bar>of_int m :: real\<bar> < 2 ^ 53"
      using assms(1) by (metis of_int_abs of_int_less_numeral_power_cancel_iff)
    then show ?thesis by (simp add: mult_strict_right_mono)
  qed
  also have "\<dots> = 2 powr of_int (k + 53)"
    by (simp add: powr_add powr_realpow [symmetric])
  finally have "\<bar>x\<bar> < 2 powr of_int (k + 53)" .
  with x0 assms(2) have "e \<le> k" unfolding e_def by (intro double_exponent_le)
  then obtain n :: nat where n: "k = e + int n"
    by (metis zle_iff_zadd)
  have pk: "(2::real) powr of_int k = 2 ^ n * 2 powr of_int e"
    by (simp add: n powr_add powr_realpow)
  have "x / 2 powr of_int e = of_int (m * 2 ^ n)"
    by (simp add: x_def pk)
  then have r: "round_even (x / 2 powr of_int e) = m * 2 ^ n"
    by (simp only: round_even_of_int)
  have "double_nearest x = of_int (round_even (x / 2 powr of_int e)) * 2 powr of_int e"
    using x0 by (simp add: double_nearest_def e_def)
  also have "\<dots> = of_int (m * 2 ^ n) * 2 powr of_int e"
    by (simp only: r)
  also have "\<dots> = x"
    by (simp add: x_def pk)
  finally show ?thesis by (simp add: x_def)
qed

lemma double_nearest_error:
  "\<bar>double_nearest x - x\<bar> \<le> 2 powr of_int (double_exponent x) / 2"
proof (cases "x = 0")
  case True
  then show ?thesis by (simp add: double_nearest_def)
next
  case False
  let ?p = "2 powr of_int (double_exponent x) :: real"
  have p: "0 < ?p" by simp
  have "double_nearest x - x = (of_int (round_even (x / ?p)) - x / ?p) * ?p"
    using False p by (simp add: double_nearest_def algebra_simps)
  then have "\<bar>double_nearest x - x\<bar> = \<bar>of_int (round_even (x / ?p)) - x / ?p\<bar> * ?p"
    by (simp add: abs_mult)
  also have "\<dots> \<le> 1 / 2 * ?p"
    using round_even_error [of "x / ?p"] p by (intro mult_right_mono) auto
  finally show ?thesis by simp
qed

lemma double_exponent_normal:
  assumes "1 / 8 \<le> \<bar>x\<bar>"
  shows "2 powr of_int (double_exponent x) \<le> \<bar>x\<bar> / 2 ^ 52"
proof -
  have x: "0 < \<bar>x\<bar>" using assms by linarith
  have "(2::real) powr (- 3) = 1 / 8"
    by (simp add: powr_minus_divide)
  with assms have "2 powr (- 3) \<le> \<bar>x\<bar>" by simp
  then have "- 3 \<le> log 2 \<bar>x\<bar>"
    using x by (simp only: le_log_iff [of 2 "\<bar>x\<bar>" "- 3", simplified])
  then have "- 3 \<le> \<lfloor>log 2 \<bar>x\<bar>\<rfloor>" by linarith
  then have e: "double_exponent x = \<lfloor>log 2 \<bar>x\<bar>\<rfloor> - 52"
    unfolding double_exponent_def by linarith
  have "2 powr of_int \<lfloor>log 2 \<bar>x\<bar>\<rfloor> \<le> 2 powr log 2 \<bar>x\<bar>"
    by (intro powr_mono) auto
  also have "\<dots> = \<bar>x\<bar>" using x by simp
  finally have "2 powr of_int \<lfloor>log 2 \<bar>x\<bar>\<rfloor> \<le> \<bar>x\<bar>" .
  moreover have "(2::real) powr of_int (double_exponent x) =
      2 powr of_int \<lfloor>log 2 \<bar>x\<bar>\<rfloor> / 2 ^ 52"
    by (simp add: e powr_diff)
  ultimately show ?thesis by (simp add: divide_right_mono)
qed

lemma double_nearest_relative:
  assumes "1 / 8 \<le> \<bar>x\<bar>"
  shows "\<bar>double_nearest x - x\<bar> \<le> \<bar>x\<bar> / 8"
proof -
  have "\<bar>double_nearest x - x\<bar> \<le> 2 powr of_int (double_exponent x) / 2"
    by (rule double_nearest_error)
  also have "\<dots> \<le> \<bar>x\<bar> / 2 ^ 52 / 2"
    using double_exponent_normal [OF assms] by simp
  also have "\<dots> \<le> \<bar>x\<bar> / 8"
    by (simp add: field_simps)
  finally show ?thesis .
qed

lemma double_nearest_bounds:
  assumes "1 / 8 \<le> x"
  shows "7 / 8 * x \<le> double_nearest x" and "double_nearest x \<le> 9 / 8 * x"
proof -
  have "\<bar>x\<bar> = x" using assms by simp
  with double_nearest_relative [of x] assms have "\<bar>double_nearest x - x\<bar> \<le> x / 8" by simp
  then show "7 / 8 * x \<le> double_nearest x" and "double_nearest x \<le> 9 / 8 * x"
    by linarith+
qed

lemma double_nearest_bounds_neg:
  assumes "x \<le> - (1 / 8)"
  shows "9 / 8 * x \<le> double_nearest x" and "double_nearest x \<le> 7 / 8 * x"
proof -
  have "\<bar>x\<bar> = - x" using assms by simp
  with double_nearest_relative [of x] assms have "\<bar>double_nearest x - x\<bar> \<le> - x / 8" by simp
  then show "9 / 8 * x \<le> double_nearest x" and "double_nearest x \<le> 7 / 8 * x"
    by linarith+
qed

lemma double_nearest_of_int_eq_0: "double_nearest (of_int n) = 0 \<longleftrightarrow> n = 0"
proof
  assume z: "double_nearest (of_int n) = 0"
  show "n = 0"
  proof (rule ccontr)
    assume "n \<noteq> 0"
    then have "1 \<le> \<bar>of_int n :: real\<bar>"
      by (metis of_int_abs of_int_1_le_iff abs_ge_zero dual_order.order_iff_strict zero_less_abs_iff int_one_le_iff_zero_less)
    then have "1 / 8 \<le> \<bar>of_int n :: real\<bar>" by linarith
    from double_nearest_relative [OF this] z \<open>1 \<le> \<bar>of_int n :: real\<bar>\<close> show False by simp
  qed
next
  assume "n = 0"
  then show "double_nearest (of_int n) = 0" by (simp add: double_nearest_def)
qed

lemma double_nearest_int: "\<bar>m\<bar> < 2 ^ 53 \<Longrightarrow> double_nearest (of_int m) = of_int m"
  using double_nearest_exact [of m 0] by simp

lemma double_nearest_0 [simp]: "double_nearest 0 = 0"
  by (simp add: double_nearest_def)

lemma double_nearest_1 [simp]: "double_nearest 1 = 1"
  using double_nearest_int [of 1] by simp

lemma double_nearest_half: "double_nearest (5 / 2) = 5 / 2"
  using double_nearest_exact [of 5 "- 1"] by (simp add: powr_minus_divide)


lemma double_nearest_values:
  "double_nearest 2 = 2" "double_nearest 3 = 3" "double_nearest 4 = 4" "double_nearest 5 = 5"
  "double_nearest 9 = 9" "double_nearest 15 = 15" "double_nearest 16 = 16"
  "double_nearest 25 = 25" "double_nearest (- 3) = - 3"
  using double_nearest_int [of 2] double_nearest_int [of 3] double_nearest_int [of 4]
    double_nearest_int [of 5] double_nearest_int [of 9] double_nearest_int [of 15]
    double_nearest_int [of 16] double_nearest_int [of 25] double_nearest_int [of "- 3"]
  by simp_all

lemma round_even_nonneg: "0 \<le> q \<Longrightarrow> 0 \<le> round_even q"
  by (auto simp: round_even_def Let_def)

lemma double_nearest_nonneg: "0 \<le> x \<Longrightarrow> 0 \<le> double_nearest x"
  by (simp add: double_nearest_def round_even_nonneg)

lemma overflow_threshold_ge: "2 ^ 1023 \<le> overflow_threshold"
proof -
  have "(2::real) ^ 970 \<le> 2 ^ 1023"
    by (rule power_increasing) simp_all
  moreover have "(2::real) ^ 1024 = 2 * 2 ^ 1023"
    by (simp only: power_Suc [symmetric]) simp
  ultimately show ?thesis
    unfolding overflow_threshold_def by linarith
qed

lemma overflow_threshold_gt: "x < 2 ^ 20 \<Longrightarrow> \<not> overflow_threshold \<le> x"
proof -
  assume "x < 2 ^ 20"
  moreover have "(2::real) ^ 20 \<le> 2 ^ 1023"
    by (rule power_increasing) simp_all
  ultimately show ?thesis
    using overflow_threshold_ge by linarith
qed

lemma overflow_threshold_pos: "0 < overflow_threshold"
  using overflow_threshold_gt [of 0] by simp


lemma double_round_moderate: "\<bar>x\<bar> < 2 ^ 20 \<Longrightarrow> double_round x = Finite (double_nearest x)"
proof -
  assume a: "\<bar>x\<bar> < 2 ^ 20"
  then have "x < 2 ^ 20" and "- x < 2 ^ 20"
    by linarith+
  then have "\<not> overflow_threshold \<le> x" and "\<not> overflow_threshold \<le> - x"
    by (simp_all only: overflow_threshold_gt not_False_eq_True)
  then show ?thesis
    unfolding double_round_def by (simp only: if_False) (simp add: not_le)
qed

lemma double_round_nonneg:
  "0 \<le> x \<Longrightarrow> double_round x = PosInf \<or> (\<exists>y. double_round x = Finite y \<and> 0 \<le> y)"
  using overflow_threshold_pos by (auto simp: double_round_def double_nearest_nonneg)



section \<open>The evaluator on well-typed alerts\<close>

lemma holds_encode: "holds (encode a) a"
  by (simp add: holds_def encode_def)

lemma py_float_ops:
  "py_add (PFloat a) (PFloat b) = Inr (PFloat (fl_add a b))"
  "py_sub (PFloat a) (PFloat b) = Inr (PFloat (fl_sub a b))"
  "py_mul (PFloat a) (PFloat b) = Inr (PFloat (fl_mul a b))"
  "py_div (PFloat a) (PFloat b) =
     (if fl_is_zero b then Inl ZeroDivisionError else Inr (PFloat (fl_div a b)))"
  "py_sq (PFloat a) = (if fl_sq_overflows a then Inl OverflowError else Inr (PFloat (fl_sq a)))"
  "py_sqrt (PFloat a) =
     (if fl_sqrt_undefined a then Inl ValueError else Inr (PFloat (fl_sqrt a)))"
  "py_eq0 (PFloat a) = fl_is_zero a"
  "py_le (PFloat a) c = Inr (fl_le a c)"
  "py_ge (PFloat a) c = Inr (fl_ge a c)"
  "py_gt (PFloat a) c = Inr (fl_greater a c)"
  "py_lt (PFloat a) c = Inr (fl_less a c)"
  by (simp_all add: py_sub_def py_mul_def py_div_def py_sq_def py_sqrt_def py_eq0_def
      py_le_def py_ge_def py_gt_def py_lt_def float_op_def and_then_def)

text \<open>The argument of the square root is a sum of squares: it is never below zero.\<close>

lemma double_round_defined: "0 \<le> x \<Longrightarrow> \<not> fl_sqrt_undefined (double_round x)"
  using double_round_nonneg [of x] by auto

lemma fl_sq_defined: "\<not> fl_sqrt_undefined (fl_sq f)"
  by (cases f) (simp_all add: double_round_defined)

lemma fl_mul_defined: "\<not> fl_sqrt_undefined f \<Longrightarrow> \<not> fl_sqrt_undefined (fl_mul (Finite 4) f)"
  by (cases f) (simp_all add: double_round_defined inf_times_def inf_of_def)

lemma fl_add_defined:
  "\<not> fl_sqrt_undefined f \<Longrightarrow> \<not> fl_sqrt_undefined g \<Longrightarrow> \<not> fl_sqrt_undefined (fl_add f g)"
  by (cases f; cases g) (simp_all add: double_round_defined)

lemma sum_of_squares_defined:
  "\<not> fl_sqrt_undefined (fl_add (fl_sq d) (fl_mul (Finite 4) (fl_sq q)))"
  by (intro fl_add_defined fl_mul_defined fl_sq_defined)

lemma ellipticity_num:
  "ellipticity (PFloat (Finite xx)) (PFloat (Finite yy)) (PFloat (Finite xy)) =
     (if ellip_overflows xx yy xy then Inl OverflowError
      else Inr (PFloat (ellip xx yy xy)))"
  unfolding ellipticity_def ellip_overflows_def ellip_def
  by (simp add: py_float_ops and_then_def sum_of_squares_defined del: fl_add.simps fl_sq.simps
      fl_mul.simps fl_sqrt.simps fl_is_zero.simps fl_sq_overflows.simps py_add.simps)

text \<open>
  On a dictionary that holds a well-typed alert the evaluator returns the verdict and
  leaves the world as it found it.
\<close>

lemma evaluate_holds:
  assumes "holds p a"
  shows "evaluate \<lparr> props = p, thresholds = cfg \<rparr> =
           (verdict cfg a, \<lparr> props = p, thresholds = cfg \<rparr>)"
  using assms
  unfolding holds_def evaluate_def
  by (simp add: seq_def getitem_def lift_def ret_def threshold_def le_threshold_def py_or_def
      py_and_def and_then_def py_float_ops py_any_def ellipticity_num verdict_def any_flag_def
      all_pos_def all_neg_def psf_trace_def flux_ext_def i_ext_def ellip_ext_def
      temp_sci_flux_ratio_def features_def
      split: option.split
      del: fl_add.simps fl_div.simps py_add.simps)

lemma call_holds: "holds p a \<Longrightarrow> call cfg p = verdict cfg a"
  by (simp add: call_def evaluate_holds)

lemma py_float_less: "1 / 8 \<le> x \<Longrightarrow> 9 / 8 * x < y \<Longrightarrow> py_float x < y"
  using double_nearest_bounds(2) [of x] by (simp add: py_float_def)

lemma py_float_greater: "1 / 8 \<le> x \<Longrightarrow> y < 7 / 8 * x \<Longrightarrow> y < py_float x"
  using double_nearest_bounds(1) [of x] by (simp add: py_float_def)

lemma floor_bounds:
  "py_float 15.0 < 20" "py_float 1.259 < 2" "py_float 1.5 < 5 / 2" "py_float 0.2 < 1"
  "py_float 0.25 < 1" "py_float 0.35 < 2" "py_float 0.5 < 5 / 2" "py_float 0.85 < 1"
  by (rule py_float_less; simp)+

lemma cap_bounds:
  "500 < py_float 657111.2" "py_float 657111.2 < 2 ^ 20"
  "500 < py_float 166872.5"
  by (rule py_float_less py_float_greater; simp)+

lemma sqrt_25: "sqrt 25 = 5"
  by (rule real_sqrt_unique) simp_all

lemmas exact_doubles =
  double_round_moderate double_nearest_values double_nearest_half overflow_threshold_gt sqrt_25

lemma extended_alert_features:
  "psf_trace extended_alert = Finite 2"
  "flux_ext extended_alert = Finite 2"
  "i_ext extended_alert = Finite (5 / 2)"
  "\<not> ellip_overflows (ixx extended_alert) (iyy extended_alert) (ixy extended_alert)"
  "\<not> ellip_overflows (ixxPSF extended_alert) (iyyPSF extended_alert) (ixyPSF extended_alert)"
  "ellip (ixx extended_alert) (iyy extended_alert) (ixy extended_alert) = Finite 1"
  "ellip (ixxPSF extended_alert) (iyyPSF extended_alert) (ixyPSF extended_alert) = Finite 0"
  "ellip_ext extended_alert = Finite 1"
  "temp_sci_flux_ratio extended_alert = Finite 1"
  by (simp_all add: extended_alert_def psf_trace_def flux_ext_def i_ext_def ellip_ext_def
      temp_sci_flux_ratio_def ellip_def ellip_overflows_def fl_sub_def exact_doubles)

lemma extended_alert_verdict:
  "verdict filters_thresholds extended_alert = Inr (Pass (features extended_alert))"
  "verdict lantern_thresholds extended_alert = Inr (Pass (features extended_alert))"
  using floor_bounds cap_bounds
  by (simp_all add: verdict_def extended_alert_features any_flag_def all_pos_def all_neg_def
      filters_thresholds_def lantern_thresholds_def BAND_FLUX_THRESHOLDS_def)
     (simp_all add: extended_alert_def)

lemma negative_alert_features:
  "psf_trace negative_alert = Finite 2"
  "flux_ext negative_alert = Finite 2"
  "i_ext negative_alert = Finite (5 / 2)"
  "\<not> ellip_overflows (ixx negative_alert) (iyy negative_alert) (ixy negative_alert)"
  "\<not> ellip_overflows (ixxPSF negative_alert) (iyyPSF negative_alert) (ixyPSF negative_alert)"
  "ellip_ext negative_alert = Finite 1"
  "temp_sci_flux_ratio negative_alert = Finite 1"
  by (simp_all add: negative_alert_def extended_alert_def psf_trace_def flux_ext_def i_ext_def
      ellip_ext_def temp_sci_flux_ratio_def ellip_def ellip_overflows_def fl_sub_def
      exact_doubles)

lemma negative_alert_verdict:
  "verdict filters_thresholds negative_alert = Inr (Pass (features negative_alert))"
  "verdict lantern_thresholds negative_alert = Inr (Pass (features negative_alert))"
  using floor_bounds cap_bounds
  by (simp_all add: verdict_def negative_alert_features any_flag_def all_pos_def all_neg_def
      filters_thresholds_def lantern_thresholds_def BAND_FLUX_THRESHOLDS_def)
     (simp_all add: negative_alert_def extended_alert_def)

section \<open>The evaluator only reads\<close>

lemma readonly_ret: "readonly (ret x)"
  by (simp add: readonly_def ret_def)

lemma readonly_lift: "readonly (lift r)"
  by (simp add: readonly_def lift_def)

lemma readonly_getitem: "readonly (getitem k)"
  by (simp add: readonly_def getitem_def)

lemma readonly_threshold: "readonly (threshold sel)"
  by (simp add: readonly_def threshold_def)

lemma readonly_seq: "readonly m \<Longrightarrow> (\<And>x. readonly (f x)) \<Longrightarrow> readonly (seq m f)"
proof -
  assume m: "readonly m" and f: "\<And>x. readonly (f x)"
  show ?thesis
    unfolding readonly_def
  proof
    fix w
    obtain r w' where mw: "m w = (r, w')" by (cases "m w")
    with m have w': "w' = w" by (auto simp: readonly_def dest: spec [of _ w])
    show "snd (seq m f w) = w"
    proof (cases r)
      case (Inl e)
      with mw w' show ?thesis by (simp add: seq_def)
    next
      case (Inr x)
      with mw w' f [of x] show ?thesis by (simp add: seq_def readonly_def)
    qed
  qed
qed

lemma readonly_if: "readonly m \<Longrightarrow> readonly n \<Longrightarrow> readonly (if c then m else n)"
  by simp

lemma readonly_le_threshold: "readonly (le_threshold v sel)"
  unfolding le_threshold_def by (intro readonly_seq readonly_threshold readonly_lift)

lemma readonly_py_or: "readonly l \<Longrightarrow> readonly r \<Longrightarrow> readonly (py_or l r)"
  unfolding py_or_def by (intro readonly_seq readonly_if readonly_ret)

section \<open>Missing keys\<close>

lemma raises_seq_first: "raises m w \<Longrightarrow> raises (seq m f) w"
  by (cases "m w") (auto simp: raises_def seq_def split: sum.splits)

lemma raises_seq_later: "readonly m \<Longrightarrow> (\<And>x. raises (f x) w) \<Longrightarrow> raises (seq m f) w"
proof -
  assume m: "readonly m" and f: "\<And>x. raises (f x) w"
  obtain r w' where mw: "m w = (r, w')" by (cases "m w")
  with m have "w' = w" by (auto simp: readonly_def dest: spec [of _ w])
  with mw f show ?thesis
    by (cases r) (simp_all add: raises_def seq_def)
qed

lemma raises_getitem: "props w k = None \<Longrightarrow> raises (getitem k) w"
  by (simp add: raises_def getitem_def)

lemma raises_missing:
  assumes "k \<in> set required_keys" and "props w k = None"
  shows "raises evaluate w"
  using assms unfolding evaluate_def required_keys_def
  apply simp
  apply (elim disjE; hypsubst;
      ((rule raises_seq_first, rule raises_getitem, assumption)
       | (rule raises_seq_later, rule readonly_getitem readonly_lift))+)
  done

section \<open>Division by zero and the flux guard\<close>

lemma safe_ret: "x \<noteq> Rejected ZeroFlux \<Longrightarrow> safe (ret x) w"
  by (simp add: safe_def ret_def)

lemma safe_seq_getitem: "(\<And>v. safe (f v) w) \<Longrightarrow> safe (seq (getitem k) f) w"
  by (simp add: safe_def seq_def getitem_def split: option.splits)

lemma safe_seq_threshold: "(\<And>v. safe (f v) w) \<Longrightarrow> safe (seq (threshold sel) f) w"
  by (simp add: safe_def seq_def threshold_def)

lemma safe_seq_lift:
  "r \<noteq> Inl ZeroDivisionError \<Longrightarrow> (\<And>x. r = Inr x \<Longrightarrow> safe (f x) w) \<Longrightarrow> safe (seq (lift r) f) w"
  by (cases r) (simp_all add: safe_def seq_def lift_def)

lemma safe_seq_readonly:
  assumes "readonly m" and "fst (m w) \<noteq> Inl ZeroDivisionError" and "\<And>x. safe (f x) w"
  shows "safe (seq m f) w"
proof -
  obtain r w' where mw: "m w = (r, w')" by (cases "m w")
  with assms(1) have "w' = w" by (auto simp: readonly_def dest: spec [of _ w])
  with mw assms(2,3) show ?thesis
    by (cases r) (simp_all add: safe_def seq_def)
qed

lemma py_cmp_no_zdiv:
  "py_gt v c \<noteq> Inl ZeroDivisionError" "py_lt v c \<noteq> Inl ZeroDivisionError"
  "py_le v c \<noteq> Inl ZeroDivisionError" "py_ge v c \<noteq> Inl ZeroDivisionError"
  by (simp_all add: py_gt_def py_lt_def py_le_def py_ge_def split: option.splits num.splits)

lemma py_and_no_zdiv:
  "l \<noteq> Inl ZeroDivisionError \<Longrightarrow> r \<noteq> Inl ZeroDivisionError \<Longrightarrow>
   py_and l r \<noteq> Inl ZeroDivisionError"
  by (cases l) (simp_all add: py_and_def and_then_def)

lemma py_and_True: "py_and l r = Inr True \<longleftrightarrow> l = Inr True \<and> r = Inr True"
  by (cases l) (auto simp: py_and_def and_then_def)

lemma fl_greater_nonzero: "fl_greater f 0 \<Longrightarrow> \<not> fl_is_zero f"
  by (cases f) simp_all

lemma fl_less_nonzero: "fl_less f 0 \<Longrightarrow> \<not> fl_is_zero f"
  by (cases f) simp_all

lemma py_gt_nonzero: "py_gt v 0 = Inr True \<Longrightarrow> \<not> py_eq0 v"
  by (auto simp: py_gt_def py_eq0_def fl_greater_nonzero split: option.splits num.splits)

lemma py_lt_nonzero: "py_lt v 0 = Inr True \<Longrightarrow> \<not> py_eq0 v"
  by (auto simp: py_lt_def py_eq0_def fl_less_nonzero split: option.splits num.splits)

lemma and_then_no_zdiv:
  "r \<noteq> Inl ZeroDivisionError \<Longrightarrow> (\<And>x. r = Inr x \<Longrightarrow> f x \<noteq> Inl ZeroDivisionError) \<Longrightarrow>
   and_then r f \<noteq> Inl ZeroDivisionError"
  by (cases r) (simp_all add: and_then_def)

lemma to_float_no_zdiv: "to_float n \<noteq> Inl ZeroDivisionError"
  by (cases n) (simp_all split: fl.splits)

lemma float_op_no_zdiv: "float_op f x y \<noteq> Inl ZeroDivisionError"
  unfolding float_op_def by (intro and_then_no_zdiv to_float_no_zdiv) simp

lemma py_add_no_zdiv: "py_add x y \<noteq> Inl ZeroDivisionError"
  by (cases x; cases y) (simp_all add: float_op_no_zdiv)

lemma py_sub_no_zdiv: "py_sub x y \<noteq> Inl ZeroDivisionError"
proof -
  have "num_sub a b \<noteq> Inl ZeroDivisionError" for a b
    by (cases a; cases b) (simp_all add: float_op_no_zdiv)
  then show ?thesis
    by (simp add: py_sub_def split: option.splits)
qed

lemma py_mul_no_zdiv: "py_mul x y \<noteq> Inl ZeroDivisionError"
proof -
  have "num_mul a b \<noteq> Inl ZeroDivisionError" for a b
    by (cases a; cases b) (simp_all add: float_op_no_zdiv)
  then show ?thesis
    by (simp add: py_mul_def split: option.splits)
qed

lemma py_sq_no_zdiv: "py_sq x \<noteq> Inl ZeroDivisionError"
  by (simp add: py_sq_def split: option.splits num.splits)

lemma py_sqrt_no_zdiv: "py_sqrt x \<noteq> Inl ZeroDivisionError"
  unfolding py_sqrt_def
  by (cases "num_of x") (simp_all add: and_then_no_zdiv to_float_no_zdiv)

text \<open>A nonzero integer converts to a nonzero double, or to none at all.\<close>

lemma to_float_nonzero: "n \<noteq> 0 \<Longrightarrow> to_float (NInt n) = Inr f \<Longrightarrow> \<not> fl_is_zero f"
  by (auto simp: double_round_def double_nearest_of_int_eq_0 split: if_splits)

lemma num_div_no_zdiv:
  assumes "case b of NInt n \<Rightarrow> n \<noteq> 0 | NFloat f \<Rightarrow> \<not> fl_is_zero f"
  shows "num_div a b \<noteq> Inl ZeroDivisionError"
proof (cases b)
  case (NFloat f)
  with assms have "and_then (to_float a) (\<lambda>x. and_then (to_float b) (\<lambda>y.
      if fl_is_zero y then Inl ZeroDivisionError else Inr (PFloat (fl_div x y)))) \<noteq>
      Inl ZeroDivisionError"
    by (intro and_then_no_zdiv to_float_no_zdiv) simp
  with NFloat show ?thesis
    by (cases a) simp_all
next
  case (NInt n)
  with assms have n: "n \<noteq> 0" by simp
  show ?thesis
  proof (cases a)
    case (NInt m)
    with \<open>b = NInt n\<close> n show ?thesis
      by (simp split: fl.splits)
  next
    case (NFloat g)
    with \<open>b = NInt n\<close> to_float_nonzero [OF n] to_float_no_zdiv [of "NInt n"] show ?thesis
      by (cases "to_float (NInt n)") (simp_all add: and_then_def del: to_float.simps(2))
  qed
qed

lemma py_div_no_zdiv: "\<not> py_eq0 y \<Longrightarrow> py_div x y \<noteq> Inl ZeroDivisionError"
proof -
  assume nz: "\<not> py_eq0 y"
  show ?thesis
  proof (cases "num_of x")
    case None
    then show ?thesis by (simp add: py_div_def)
  next
    case (Some a)
    show ?thesis
    proof (cases "num_of y")
      case None
      with Some show ?thesis by (simp add: py_div_def)
    next
      case b: (Some b)
      with nz have "case b of NInt n \<Rightarrow> n \<noteq> 0 | NFloat f \<Rightarrow> \<not> fl_is_zero f"
        by (simp add: py_eq0_def split: num.splits)
      then have "num_div a b \<noteq> Inl ZeroDivisionError"
        by (rule num_div_no_zdiv)
      with Some b show ?thesis by (simp add: py_div_def)
    qed
  qed
qed

lemma py_add_Str: "py_add x y = Inr (PStr s) \<Longrightarrow> py_sub x y = Inl TypeError"
proof -
  have "float_op f a b \<noteq> Inr (PStr s)" for f a b
    by (auto simp: float_op_def and_then_def split: sum.splits)
  then show "py_add x y = Inr (PStr s) \<Longrightarrow> py_sub x y = Inl TypeError"
    by (cases x; cases y) (auto simp: py_sub_def)
qed

lemma ellipticity_no_zdiv: "ellipticity x y z \<noteq> Inl ZeroDivisionError"
  unfolding ellipticity_def
  apply (rule and_then_no_zdiv, rule py_add_no_zdiv)
  apply (simp only: split: if_split)
  apply (intro conjI impI, simp)
  apply (rule and_then_no_zdiv, rule py_sub_no_zdiv)
  apply (rule and_then_no_zdiv, rule py_sq_no_zdiv)
  apply (rule and_then_no_zdiv, rule py_sq_no_zdiv)
  apply (rule and_then_no_zdiv, rule py_mul_no_zdiv)
  apply (rule and_then_no_zdiv, rule py_add_no_zdiv)
  apply (rule and_then_no_zdiv, rule py_sqrt_no_zdiv)
  apply (rule py_div_no_zdiv, assumption)
  done

lemma le_threshold_no_zdiv: "fst (le_threshold v sel w) \<noteq> Inl ZeroDivisionError"
  by (simp add: le_threshold_def seq_def threshold_def lift_def py_cmp_no_zdiv)

lemma py_or_no_zdiv:
  assumes "readonly l" and "fst (l w) \<noteq> Inl ZeroDivisionError"
    and "fst (r w) \<noteq> Inl ZeroDivisionError"
  shows "fst (py_or l r w) \<noteq> Inl ZeroDivisionError"
proof -
  obtain x w' where lw: "l w = (x, w')" by (cases "l w")
  with assms(1) have "w' = w" by (auto simp: readonly_def dest: spec [of _ w])
  with lw assms(2,3) show ?thesis
    by (cases x) (simp_all add: py_or_def seq_def ret_def)
qed

lemma flux_signs_nonzero:
  assumes "py_and (py_and (py_gt a 0) (py_gt b 0)) (py_gt c 0) = Inr pos"
    and "py_and (py_and (py_lt a 0) (py_lt b 0)) (py_lt c 0) = Inr neg"
    and "pos \<or> neg"
  shows "\<not> py_eq0 a \<and> \<not> py_eq0 c"
  using assms by (auto simp: py_and_True dest: py_gt_nonzero py_lt_nonzero)

lemma safe_if: "(c \<Longrightarrow> safe m w) \<Longrightarrow> (\<not> c \<Longrightarrow> safe n w) \<Longrightarrow> safe (if c then m else n) w"
  by simp

lemma safe_case_option:
  "(v = None \<Longrightarrow> safe m w) \<Longrightarrow> (\<And>x. v = Some x \<Longrightarrow> safe (f x) w) \<Longrightarrow>
   safe (case v of None \<Rightarrow> m | Some x \<Rightarrow> f x) w"
  by (cases v) simp_all

lemma py_any_flux_signs:
  "\<not> py_any [f1, f2, f3, f4, f5, f6, f7, f8, PBool low, PBool (\<not> (pos \<or> neg))] \<Longrightarrow> pos \<or> neg"
  by (simp add: py_any_def)

lemma safe_evaluate: "safe evaluate w"
  unfolding evaluate_def
  apply (rule safe_seq_getitem)+
  apply (rule safe_seq_lift, intro py_and_no_zdiv py_cmp_no_zdiv)
  apply (rule safe_seq_lift, intro py_and_no_zdiv py_cmp_no_zdiv)
  apply (rule safe_seq_getitem)+
  apply (rule safe_seq_readonly, rule readonly_le_threshold, rule le_threshold_no_zdiv)
  apply (rule safe_if)
   apply (rule safe_ret, simp)
  apply (rule safe_if)
   apply (drule py_any_flux_signs, drule (2) flux_signs_nonzero, simp)
  apply (rule safe_seq_lift, rule py_add_no_zdiv)
  apply (rule safe_if)
   apply (rule safe_ret, simp)
  apply (rule safe_seq_lift, rule py_div_no_zdiv, simp)
  apply (rule safe_seq_lift, rule ellipticity_no_zdiv)
  apply (rule safe_seq_lift, rule ellipticity_no_zdiv)
  apply (rule safe_seq_lift, rule py_sub_no_zdiv)
  apply (rule safe_seq_lift, rule py_add_no_zdiv)
  apply (rule safe_seq_lift, rule py_div_no_zdiv, assumption)
  apply (rule safe_seq_lift, rule py_div_no_zdiv, simp)
  apply (rule safe_seq_readonly)
    apply (intro readonly_py_or readonly_le_threshold)
   apply (intro py_or_no_zdiv readonly_py_or readonly_le_threshold le_threshold_no_zdiv)
  apply (rule safe_if)
   apply (rule safe_ret, simp)
  apply (rule safe_seq_readonly, rule readonly_le_threshold, rule le_threshold_no_zdiv)
  apply (rule safe_if)
   apply (rule safe_ret, simp)
  apply (rule safe_seq_threshold)
  apply (rule safe_case_option)
   apply (rule safe_ret, simp)
  apply (rule safe_seq_lift, rule py_cmp_no_zdiv)
  apply (rule safe_if)
   apply (rule safe_ret, simp)
  apply (rule safe_ret, simp)
  done

section \<open>The cuts one by one\<close>

lemma extendedness_cut_num:
  "extendedness_cut cfg a =
     (if psfFlux a = 0 then Inl ZeroDivisionError
      else if ellip_overflows (ixx a) (iyy a) (ixy a) \<or>
              ellip_overflows (ixxPSF a) (iyyPSF a) (ixyPSF a)
      then Inl OverflowError
      else if fl_is_zero (psf_trace a) then Inl ZeroDivisionError
      else Inr (\<not> (fl_le (flux_ext a) (flux_ext_floor cfg) \<or>
                    fl_le (i_ext a) (i_ext_floor cfg) \<or>
                    fl_le (ellip_ext a) (ellip_ext_floor cfg))))"
  unfolding extendedness_cut_def
  by (simp add: py_float_ops and_then_def ellipticity_num psf_trace_def flux_ext_def i_ext_def
      ellip_ext_def
      del: fl_add.simps fl_div.simps py_add.simps)

lemma moving_object_cut_num:
  "moving_object_cut cfg a =
     (if scienceFlux a = 0 then Inl ZeroDivisionError
      else Inr (\<not> fl_le (temp_sci_flux_ratio a) (temp_sci_flux_ratio_floor cfg)))"
  unfolding moving_object_cut_def
  by (simp add: py_float_ops and_then_def temp_sci_flux_ratio_def del: fl_div.simps)


lemma verdict_pass_cuts:
  assumes "verdict cfg a = Inr (Pass d)"
  shows "passes_quality cfg a \<and> passes_degeneracy a \<and> extendedness_cut cfg a = Inr True \<and>
         moving_object_cut cfg a = Inr True \<and> passes_band_cap cfg a"
  using assms
  by (simp add: verdict_def passes_quality_def passes_degeneracy_def passes_band_cap_def
      extendedness_cut_num moving_object_cut_num split: if_splits option.splits)





lemma extended_alert_cuts:
  "passes_quality filters_thresholds extended_alert"
  "passes_degeneracy extended_alert"
  "extendedness_cut filters_thresholds extended_alert = Inr True"
  "moving_object_cut filters_thresholds extended_alert = Inr True"
  "passes_band_cap filters_thresholds extended_alert"
  using verdict_pass_cuts [OF extended_alert_verdict(1)] by simp_all








section \<open>Properties of the ellipticity helper\<close>




section \<open>Claims about the evaluator\<close>



text \<open>
  C3. Whenever the three fluxes \<open>psfFlux\<close>, \<open>apFlux\<close>, \<open>scienceFlux\<close> are neither all
  strictly positive nor all strictly negative (mixed signs, or one of them zero), the
  evaluator rejects, whatever the other fields hold. Under each of the two threshold
  tables some all-positive alert passes and some all-negative alert passes.
\<close>

theorem flux_sign_check:
  "(\<forall>cfg p a. holds p a \<and> \<not> (all_pos a \<or> all_neg a) \<longrightarrow>
       call cfg p = Inr (Rejected QualityCut) \<and> returned cfg p = Inr None) \<and>
   (\<forall>cfg \<in> {filters_thresholds, lantern_thresholds}.
      (\<exists>a. all_pos a \<and> call cfg (encode a) = Inr (Pass (features a))) \<and>
      (\<exists>a. all_neg a \<and> call cfg (encode a) = Inr (Pass (features a))))"
proof (intro conjI allI impI ballI)
  fix cfg p a
  assume h: "holds p a \<and> \<not> (all_pos a \<or> all_neg a)"
  then have "call cfg p = verdict cfg a"
    by (simp add: call_holds)
  with h show "call cfg p = Inr (Rejected QualityCut)"
    by (simp add: verdict_def)
  then show "returned cfg p = Inr None"
    by (simp add: returned_def)
next
  fix cfg
  assume c: "cfg \<in> {filters_thresholds, lantern_thresholds}"
  have "all_pos extended_alert"
    by (simp add: all_pos_def extended_alert_def)
  moreover from c have "call cfg (encode extended_alert) = Inr (Pass (features extended_alert))"
    by (auto simp: call_holds [OF holds_encode] extended_alert_verdict)
  ultimately show "\<exists>a. all_pos a \<and> call cfg (encode a) = Inr (Pass (features a))"
    by blast
  have "all_neg negative_alert"
    by (simp add: all_neg_def negative_alert_def extended_alert_def)
  moreover from c have "call cfg (encode negative_alert) = Inr (Pass (features negative_alert))"
    by (auto simp: call_holds [OF holds_encode] negative_alert_verdict)
  ultimately show "\<exists>a. all_neg a \<and> call cfg (encode a) = Inr (Pass (features a))"
    by blast
qed

theorem flux_sign_check_witness:
  "call filters_thresholds (encode (extended_alert \<lparr> apFlux := - 200 \<rparr>)) =
     Inr (Rejected QualityCut) \<and>
   call lantern_thresholds (encode (extended_alert \<lparr> scienceFlux := 0 \<rparr>)) =
     Inr (Rejected QualityCut)"
proof -
  have a: "\<not> (all_pos (extended_alert \<lparr> apFlux := - 200 \<rparr>) \<or>
              all_neg (extended_alert \<lparr> apFlux := - 200 \<rparr>))"
    by (simp add: all_pos_def all_neg_def extended_alert_def)
  have b: "\<not> (all_pos (extended_alert \<lparr> scienceFlux := 0 \<rparr>) \<or>
              all_neg (extended_alert \<lparr> scienceFlux := 0 \<rparr>))"
    by (simp add: all_pos_def all_neg_def extended_alert_def)
  from flux_sign_check a b holds_encode show ?thesis
    by blast
qed

text \<open>
  C5. When at least one of the eight quality flags is set, the evaluator rejects,
  whatever the other fields hold.
\<close>

theorem quality_flags_reject:
  assumes "holds p a" and "any_flag a"
  shows "call cfg p = Inr (Rejected QualityCut) \<and> returned cfg p = Inr None"
  using assms(2) by (simp add: returned_def call_holds [OF assms(1)] verdict_def)

theorem quality_flags_reject_witness:
  "call filters_thresholds (encode (extended_alert \<lparr> pixelFlags_saturated := True \<rparr>)) =
     Inr (Rejected QualityCut) \<and>
   returned filters_thresholds (encode (extended_alert \<lparr> pixelFlags_saturated := True \<rparr>)) =
     Inr None"
proof -
  have "any_flag (extended_alert \<lparr> pixelFlags_saturated := True \<rparr>)"
    by (simp add: any_flag_def)
  from quality_flags_reject [OF holds_encode this] show ?thesis .
qed






text \<open>
  C9. When at least one of the twenty keys the evaluator reads is absent from the input
  dictionary, the call ends in an exception; it does not return \<open>None\<close>, so the caller's
  error cannot be taken for a rejection.
\<close>

theorem missing_field_raises:
  assumes "k \<in> set required_keys" and "p k = None"
  shows "\<exists>e. call cfg p = Inl e \<and> returned cfg p = Inl e"
proof -
  have "raises evaluate \<lparr> props = p, thresholds = cfg \<rparr>"
    using assms by (intro raises_missing [of k]) simp_all
  then show ?thesis
    by (cases "call cfg p") (simp_all add: raises_def call_def returned_def)
qed

theorem missing_field_raises_witness:
  "''lsst_diaSource_pixelFlags_cr'' \<in> set required_keys \<and>
   (\<exists>e. returned filters_thresholds
           ((encode extended_alert)(''lsst_diaSource_pixelFlags_cr'' := None)) = Inl e)"
proof -
  have k: "''lsst_diaSource_pixelFlags_cr'' \<in> set required_keys"
    by (simp add: required_keys_def)
  have "((encode extended_alert)(''lsst_diaSource_pixelFlags_cr'' := None))
          ''lsst_diaSource_pixelFlags_cr'' = None"
    by simp
  from missing_field_raises [of _ "(encode extended_alert)(''lsst_diaSource_pixelFlags_cr'' := None)"
      filters_thresholds, OF k this] k show ?thesis
    by blast
qed

text \<open>
  C10. Whenever the quality gate lets an input through, \<open>psfFlux\<close> and \<open>scienceFlux\<close>
  are both nonzero, so the guard's \<open>psf_flux == 0.0 or science_flux == 0.0\<close> return is
  never taken; and no division of the evaluator (\<open>ap_flux / psf_flux\<close>,
  \<open>template_flux / science_flux\<close>, \<open>(ixx + iyy) / psf_trace\<close>, the one inside the
  ellipticity helper) ever has a zero denominator. This holds for every dictionary and
  every configuration, well-typed or not.
\<close>

theorem flux_guard_unreachable:
  "call cfg p \<noteq> Inr (Rejected ZeroFlux) \<and> call cfg p \<noteq> Inl ZeroDivisionError \<and>
   (holds p a \<and> passes_quality cfg a \<longrightarrow> psfFlux a \<noteq> 0 \<and> scienceFlux a \<noteq> 0)"
  using safe_evaluate [of "\<lparr> props = p, thresholds = cfg \<rparr>"]
  by (auto simp: safe_def call_def passes_quality_def all_pos_def all_neg_def)

theorem flux_guard_unreachable_witness:
  "call filters_thresholds (encode (extended_alert \<lparr> scienceFlux := 0 \<rparr>)) =
     Inr (Rejected QualityCut) \<and>
   psfFlux extended_alert \<noteq> 0 \<and> scienceFlux extended_alert \<noteq> 0"
proof -
  have "call filters_thresholds (encode (extended_alert \<lparr> scienceFlux := 0 \<rparr>)) =
          Inr (Rejected QualityCut)"
    by (simp add: call_holds [OF holds_encode] verdict_def all_pos_def all_neg_def
        extended_alert_def)
  with flux_guard_unreachable [of filters_thresholds "encode extended_alert" extended_alert]
    holds_encode [of extended_alert] extended_alert_cuts(1)
  show ?thesis by blast
qed




end
